theory Spec2Isabelle
  imports
    Complex_Main
    "HOL-Library.List_Lexorder"
    "HOL-Library.Product_Lexorder"
    "HOL-Library.Multiset"
begin

section \<open>Numbers and strings\<close>

text \<open>
  The tables of the program hold pandas float columns. A cell is modelled as a
  \<open>rat option\<close>: \<open>Some v\<close> is the finite number \<open>v\<close>, computed exactly (rounding
  and overflow of binary floating point are not modelled), and \<open>None\<close> is NaN, the
  missing value. Where a division can also give an infinity (\<open>calculate_roi_potential\<close>)
  the four-valued type \<open>fnum\<close> below is used.

  Strings that the program only compares for equality (\<open>tipo_operacion\<close>,
  \<open>risk_tolerance\<close>) are HOL strings. Neighbourhood names are case-mapped by Python's
  \<open>str\<close> methods, which work on Unicode code points, so a name is a list of code points.
\<close>

type_synonym codepoint = nat
type_synonym pystr = "codepoint list"

definition py :: "string \<Rightarrow> pystr" where
  "py s = map of_char s"

definition is_ascii_upper :: "codepoint \<Rightarrow> bool" where
  "is_ascii_upper c = (65 \<le> c \<and> c \<le> 90)"

definition is_ascii_lower :: "codepoint \<Rightarrow> bool" where
  "is_ascii_lower c = (97 \<le> c \<and> c \<le> 122)"

text \<open>
  \<open>str.title()\<close> reads three tables of Python's Unicode database, which is not part of
  the repository: the full lower-case mapping and the full title-case mapping of a code
  point (each a string of one to three code points) and its \<open>Cased\<close> property. The
  tables are a parameter of the model, under the names of the CPython functions that
  read them.
\<close>

record unicode_tables =
  to_lower_full :: "codepoint \<Rightarrow> pystr"
  to_title_full :: "codepoint \<Rightarrow> pystr"
  is_cased :: "codepoint \<Rightarrow> bool"

text \<open>The code points for which \<open>str.isspace\<close> holds; \<open>str.strip()\<close> removes them.\<close>

definition is_space :: "codepoint \<Rightarrow> bool" where
  "is_space c =
     ((9 \<le> c \<and> c \<le> 13) \<or> (28 \<le> c \<and> c \<le> 32) \<or> c = 133 \<or> c = 160 \<or> c = 5760
      \<or> (8192 \<le> c \<and> c \<le> 8202) \<or> c = 8232 \<or> c = 8233 \<or> c = 8239 \<or> c = 8287
      \<or> c = 12288)"

definition strip :: "pystr \<Rightarrow> pystr" where
  "strip s = rev (dropWhile is_space (rev (dropWhile is_space s)))"

text \<open>
  \<open>str.title()\<close>: CPython's \<open>do_title\<close> walks the string with the flag
  \<open>previous_is_cased\<close>; a character after a cased one is lower-cased, any other is
  title-cased, and the flag is then set from the character read (not the one written).
  CPython lower-cases through \<open>lower_ucs4\<close>, which is the table lookup except at
  U+03A3 (capital sigma, 931), where the result depends on the neighbouring characters;
  here U+03A3 is looked up like any other character, so the model is for strings in
  which U+03A3 does not follow a cased character.
\<close>

fun do_title :: "unicode_tables \<Rightarrow> bool \<Rightarrow> pystr \<Rightarrow> pystr" where
  "do_title ucd previous_is_cased [] = []"
| "do_title ucd previous_is_cased (c # cs) =
     (if previous_is_cased then to_lower_full ucd c else to_title_full ucd c)
     @ do_title ucd (is_cased ucd c) cs"

definition title :: "unicode_tables \<Rightarrow> pystr \<Rightarrow> pystr" where
  "title ucd s = do_title ucd False s"

text \<open>
  The three tables as CPython 3.11 (Unicode 14) has them on the code points below
  U+0100 (ASCII and Latin-1) and on the code points that the mappings of these lead to,
  U+0130, U+0178, U+0307, U+039C and U+03BC. In particular \<open>'\<dots>'.lower()\<close> of U+0130
  (capital I with dot above, 304) is the two code points U+0069 U+0307, and U+0307
  (combining dot above, 775) is not cased; the title-case form of U+00DF is \<open>Ss\<close>. On
  any other code point \<open>latin1\<close> is the identity and uncased, which is not Python's
  table; \<open>latin1\<close> serves the examples, whose names lie in the range described.
\<close>

definition latin1_lower :: "codepoint \<Rightarrow> pystr" where
  "latin1_lower c =
     (if is_ascii_upper c \<or> (192 \<le> c \<and> c \<le> 214) \<or> (216 \<le> c \<and> c \<le> 222) then [c + 32]
      else if c = 304 then [105, 775]
      else if c = 376 then [255]
      else if c = 924 then [956]
      else [c])"

definition latin1_title :: "codepoint \<Rightarrow> pystr" where
  "latin1_title c =
     (if is_ascii_lower c \<or> (224 \<le> c \<and> c \<le> 246) \<or> (248 \<le> c \<and> c \<le> 254) then [c - 32]
      else if c = 223 then [83, 115]
      else if c = 255 then [376]
      else if c = 181 \<or> c = 956 then [924]
      else [c])"

definition latin1_cased :: "codepoint \<Rightarrow> bool" where
  "latin1_cased c =
     (is_ascii_upper c \<or> is_ascii_lower c \<or> c = 170 \<or> c = 181 \<or> c = 186
      \<or> (192 \<le> c \<and> c \<le> 214) \<or> (216 \<le> c \<and> c \<le> 246) \<or> (248 \<le> c \<and> c \<le> 255)
      \<or> c = 304 \<or> c = 376 \<or> c = 924 \<or> c = 956)"

definition latin1 :: unicode_tables where
  "latin1 =
     \<lparr> to_lower_full = latin1_lower, to_title_full = latin1_title, is_cased = latin1_cased \<rparr>"

section \<open>config/settings.py\<close>

definition MIN_PRICE :: rat where "MIN_PRICE = 50000"
definition MAX_PRICE :: rat where "MAX_PRICE = 500000"
definition MIN_M2 :: rat where "MIN_M2 = 30"
definition MAX_M2 :: rat where "MAX_M2 = 200"

section \<open>scraping/data\_processor.py\<close>

datatype categoria_precio_t = Economica | Media | Alta | Premium
datatype categoria_tamano_t = Pequena | Mediana | Grande | Extra_Grande

text \<open>
  A row of \<open>DataProcessor.df\<close>. The first nine columns are the ones the scraper writes
  (the bathrooms column is spelled \<open>banos\<close>); the two categories are added by \<open>clean_data\<close> and are
  \<open>None\<close> before.
\<close>

record row =
  precio :: "rat option"
  metros_cuadrados :: "rat option"
  dormitorios :: "rat option"
  banos :: "rat option"
  barrio :: "pystr option"
  precio_por_m2 :: "rat option"
  url :: string
  fecha_scraping :: string
  tipo_operacion :: string
  categoria_precio :: "categoria_precio_t option"
  categoria_tamano :: "categoria_tamano_t option"

text \<open>\<open>df.dropna(subset=['precio', 'metros_cuadrados', 'barrio'])\<close>\<close>

definition dropna :: "row list \<Rightarrow> row list" where
  "dropna df =
     filter (\<lambda>r. precio r \<noteq> None \<and> metros_cuadrados r \<noteq> None \<and> barrio r \<noteq> None) df"

text \<open>The boolean mask of the range filter; a comparison with NaN is false.\<close>

definition in_valid_range :: "row \<Rightarrow> bool" where
  "in_valid_range r =
     (case (precio r, metros_cuadrados r) of
        (Some p, Some m) \<Rightarrow> MIN_PRICE \<le> p \<and> p \<le> MAX_PRICE \<and> MIN_M2 \<le> m \<and> m \<le> MAX_M2
      | _ \<Rightarrow> False)"

text \<open>
  \<open>df['precio'] / df['metros_cuadrados']\<close>. A zero divisor gives an infinity or NaN in
  numpy; it is mapped to \<open>None\<close>, and cannot occur after the range filter.
\<close>

definition col_div :: "rat option \<Rightarrow> rat option \<Rightarrow> rat option" where
  "col_div a b =
     (case (a, b) of
        (Some x, Some y) \<Rightarrow> if y = 0 then None else Some (x / y)
      | _ \<Rightarrow> None)"

text \<open>
  \<open>pd.cut\<close> with bins \<open>[0, 100000, 200000, 300000, inf]\<close> and \<open>[0, 50, 80, 120, inf]\<close>:
  the intervals are open on the left and closed on the right, and a value in none of them
  (or NaN) gives NaN.
\<close>

definition cut_precio :: "rat option \<Rightarrow> categoria_precio_t option" where
  "cut_precio x =
     (case x of
        None \<Rightarrow> None
      | Some p \<Rightarrow>
          if p \<le> 0 then None
          else if p \<le> 100000 then Some Economica
          else if p \<le> 200000 then Some Media
          else if p \<le> 300000 then Some Alta
          else Some Premium)"

definition cut_tamano :: "rat option \<Rightarrow> categoria_tamano_t option" where
  "cut_tamano x =
     (case x of
        None \<Rightarrow> None
      | Some m \<Rightarrow>
          if m \<le> 0 then None
          else if m \<le> 50 then Some Pequena
          else if m \<le> 80 then Some Mediana
          else if m \<le> 120 then Some Grande
          else Some Extra_Grande)"

text \<open>
  The four column assignments of \<open>clean_data\<close>, row by row. \<open>clean_data\<close> takes the
  Unicode tables that \<open>str.title()\<close> reads as its first argument.
\<close>

definition derive_columns :: "unicode_tables \<Rightarrow> row \<Rightarrow> row" where
  "derive_columns ucd r =
     r\<lparr> precio_por_m2 := col_div (precio r) (metros_cuadrados r),
        barrio := map_option (\<lambda>s. title ucd (strip s)) (barrio r),
        categoria_precio := cut_precio (precio r),
        categoria_tamano := cut_tamano (metros_cuadrados r) \<rparr>"

definition clean_data :: "unicode_tables \<Rightarrow> row list \<Rightarrow> row list" where
  "clean_data ucd df = map (derive_columns ucd) (filter in_valid_range (dropna df))"

subsection \<open>calculate\_roi\_potential\<close>

text \<open>
  The value of a numpy \<open>float64\<close> expression that may divide by zero: a finite number,
  an infinity or NaN. Zero has no sign here (a zero divisor counts as \<open>+0\<close>).
\<close>

datatype fnum = Fin rat | PosInf | NegInf | NaN

fun fsign :: "fnum \<Rightarrow> rat" where
  "fsign (Fin a) = sgn a"
| "fsign PosInf = 1"
| "fsign NegInf = - 1"
| "fsign NaN = 0"

definition inf_of_sign :: "rat \<Rightarrow> fnum" where
  "inf_of_sign s = (if s = 0 then NaN else if 0 < s then PosInf else NegInf)"

fun fmul :: "fnum \<Rightarrow> fnum \<Rightarrow> fnum" where
  "fmul (Fin a) (Fin b) = Fin (a * b)"
| "fmul NaN y = NaN"
| "fmul x NaN = NaN"
| "fmul x y = inf_of_sign (fsign x * fsign y)"

fun fdiv :: "fnum \<Rightarrow> fnum \<Rightarrow> fnum" where
  "fdiv (Fin a) (Fin b) = (if b = 0 then inf_of_sign (sgn a) else Fin (a / b))"
| "fdiv NaN y = NaN"
| "fdiv x NaN = NaN"
| "fdiv (Fin a) y = Fin 0"
| "fdiv x (Fin b) = inf_of_sign (fsign x * (if b < 0 then - 1 else 1))"
| "fdiv x y = NaN"

text \<open>The cells of a column that are not NaN, in order.\<close>

fun non_nan :: "'a option list \<Rightarrow> 'a list" where
  "non_nan [] = []"
| "non_nan (None # xs) = non_nan xs"
| "non_nan (Some v # xs) = v # non_nan xs"

text \<open>\<open>Series.mean()\<close> skips NaN and is NaN for a group without a value.\<close>

definition mean :: "rat option list \<Rightarrow> fnum" where
  "mean col =
     (let vs = non_nan col
      in if vs = [] then NaN else Fin (sum_list vs / of_nat (length vs)))"

text \<open>\<open>df[df['tipo_operacion'] == op]\<close>: the sale subset and the rent subset of a table.\<close>

definition subset_of :: "string \<Rightarrow> row list \<Rightarrow> row list" where
  "subset_of op df = filter (\<lambda>r. tipo_operacion r = op) df"

text \<open>
  \<open>rows.groupby('barrio')['precio'].mean()\<close>: one entry per neighbourhood name, the names
  in ascending order; rows with a missing name belong to no group.
\<close>

definition groupby_precio_mean :: "row list \<Rightarrow> (pystr \<times> fnum) list" where
  "groupby_precio_mean rows =
     map (\<lambda>b. (b, mean (map precio (filter (\<lambda>r. barrio r = Some b) rows))))
       (sort (remdups (non_nan (map barrio rows))))"

record roi_row =
  roi_barrio :: pystr
  precio_venta_promedio :: fnum
  precio_alquiler_mensual_promedio :: fnum
  roi_anual_porcentaje :: fnum

datatype py_error = KeyError | IndexError | AttributeError

text \<open>
  The key of \<open>sort_values(..., ascending=False)\<close> on a float column: larger values first,
  NaN last. pandas sorts with numpy's default kind, which promises no order for rows with
  equal keys; \<open>sort_key\<close> is a stable insertion sort (numpy's choice for short arrays),
  so here rows with equal keys keep their order.
\<close>

fun desc_key_fnum :: "fnum \<Rightarrow> nat \<times> rat" where
  "desc_key_fnum PosInf = (0, 0)"
| "desc_key_fnum (Fin v) = (1, - v)"
| "desc_key_fnum NegInf = (2, 0)"
| "desc_key_fnum NaN = (3, 0)"

text \<open>
  The loop over \<open>venta_avg.index\<close>. When \<open>roi_data\<close> stays empty, \<open>pd.DataFrame([])\<close> has
  no column and \<open>sort_values('roi_anual_porcentaje')\<close> raises \<open>KeyError\<close>.
\<close>

definition calculate_roi_potential :: "row list \<Rightarrow> py_error + roi_row list" where
  "calculate_roi_potential df =
     (let venta_avg = groupby_precio_mean (subset_of ''venta'' df);
          alquiler_avg = groupby_precio_mean (subset_of ''alquiler'' df);
          roi_data =
            concat (map (\<lambda>(b, precio_venta).
              case map_of alquiler_avg b of
                None \<Rightarrow> []
              | Some precio_alquiler_mensual \<Rightarrow>
                  [\<lparr> roi_barrio = b,
                     precio_venta_promedio = precio_venta,
                     precio_alquiler_mensual_promedio = precio_alquiler_mensual,
                     roi_anual_porcentaje =
                       fmul (fdiv (fmul precio_alquiler_mensual (Fin 12)) precio_venta)
                         (Fin 100) \<rparr>]) venta_avg)
      in if roi_data = [] then Inl KeyError
         else Inr (sort_key (\<lambda>e. desc_key_fnum (roi_anual_porcentaje e)) roi_data))"

section \<open>machine\_learning/optimizer.py\<close>

text \<open>
  The state of an \<open>InvestmentOptimizer\<close> after \<open>load_data\<close> has returned \<open>True\<close>.
  \<open>properties_df\<close> is the table of \<open>propiedades_limpias.csv\<close>, with the columns of \<open>row\<close>.
  Of \<open>roi_df\<close> the program reads the two columns \<open>barrio\<close> and \<open>roi_anual_porcentaje\<close>
  only; they are kept as pairs, with finite ROI values.
\<close>

record scored = row +
  roi_col :: "rat option"
  score_roi :: "rat option"
  score_precio_m2 :: "rat option"
  score_tamano :: "rat option"
  investment_score :: "rat option"

record optimizer =
  properties_df :: "row list"
  roi_df :: "(pystr \<times> rat) list"
  investment_scores :: "scored list option"

text \<open>The mask of the budget filter; a comparison with NaN is false.\<close>

definition in_budget :: "rat \<Rightarrow> rat \<Rightarrow> row \<Rightarrow> bool" where
  "in_budget budget_min budget_max r =
     (tipo_operacion r = ''venta''
      \<and> (case precio r of Some p \<Rightarrow> budget_min \<le> p \<and> p \<le> budget_max | None \<Rightarrow> False))"

text \<open>
  \<open>venta_props.merge(roi_df[['barrio', 'roi_anual_porcentaje']], on='barrio', how='left')\<close>:
  the rows of the left table in their order, each once per matching row of the right
  table, or once with NaN when no row matches.
\<close>

definition merge_roi :: "row list \<Rightarrow> (pystr \<times> rat) list \<Rightarrow> (row \<times> rat option) list" where
  "merge_roi venta_props roi =
     concat (map (\<lambda>r.
       case filter (\<lambda>e. Some (fst e) = barrio r) roi of
         [] \<Rightarrow> [(r, None)]
       | matches \<Rightarrow> map (\<lambda>e. (r, Some (snd e))) matches) venta_props)"

text \<open>\<open>Series.median()\<close> skips NaN and is NaN for a column without a value.\<close>

definition median :: "rat option list \<Rightarrow> rat option" where
  "median col =
     (let vs = sort (non_nan col); n = length vs
      in if n = 0 then None
         else if odd n then Some (vs ! (n div 2))
         else Some ((vs ! (n div 2 - 1) + vs ! (n div 2)) / 2))"

definition fillna :: "rat option \<Rightarrow> rat option \<Rightarrow> rat option" where
  "fillna fill x = (case x of None \<Rightarrow> fill | Some v \<Rightarrow> Some v)"

text \<open>
  scikit-learn's \<open>MinMaxScaler()\<close> on one column, with the default range \<open>(0, 1)\<close>.
  \<open>fit\<close> takes the minimum and maximum over the cells that are not NaN and computes
  \<open>scale_ = 1 / _handle_zeros_in_scale(data_max - data_min)\<close> and
  \<open>min_ = 0 - data_min * scale_\<close>, where \<open>_handle_zeros_in_scale\<close> replaces a range below
  ten machine epsilons by 1; \<open>transform\<close> computes \<open>X * scale_ + min_\<close> and keeps NaN. For
  a column of NaN only, both parameters are NaN (\<open>None\<close> below) and so is every output.
\<close>

definition eps :: rat where
  "eps = 1 / 2 ^ 52"

definition handle_zeros_in_scale :: "rat \<Rightarrow> rat" where
  "handle_zeros_in_scale data_range = (if data_range < 10 * eps then 1 else data_range)"

definition scaler_fit :: "rat option list \<Rightarrow> (rat \<times> rat) option" where
  "scaler_fit col =
     (case non_nan col of
        [] \<Rightarrow> None
      | v # vs \<Rightarrow>
          let data_min = Min (set (v # vs));
              data_max = Max (set (v # vs));
              scale = 1 / handle_zeros_in_scale (data_max - data_min)
          in Some (scale, 0 - data_min * scale))"

definition scaler_transform :: "(rat \<times> rat) option \<Rightarrow> rat option \<Rightarrow> rat option" where
  "scaler_transform params x =
     (case (params, x) of
        (Some (scale, min'), Some v) \<Rightarrow> Some (v * scale + min')
      | _ \<Rightarrow> None)"

text \<open>The weights chosen by the \<open>if\<close>/\<open>elif\<close>/\<open>else\<close> on \<open>risk_tolerance\<close>: (roi, precio\_m2, tamano).\<close>

definition risk_weights :: "string \<Rightarrow> rat \<times> rat \<times> rat" where
  "risk_weights risk_tolerance =
     (if risk_tolerance = ''low'' then (3 / 10, 4 / 10, 3 / 10)
      else if risk_tolerance = ''medium'' then (4 / 10, 3 / 10, 3 / 10)
      else (6 / 10, 2 / 10, 2 / 10))"

text \<open>Arithmetic on cells: NaN in, NaN out.\<close>

definition nan_mul :: "rat option \<Rightarrow> rat \<Rightarrow> rat option" where
  "nan_mul x w = map_option (\<lambda>v. v * w) x"

definition nan_add :: "rat option \<Rightarrow> rat option \<Rightarrow> rat option" where
  "nan_add x y = (case (x, y) of (Some a, Some b) \<Rightarrow> Some (a + b) | _ \<Rightarrow> None)"

definition one_minus :: "rat option \<Rightarrow> rat option" where
  "one_minus x = map_option (\<lambda>v. 1 - v) x"

text \<open>
  The merged table with its ROI filled and the four score columns added, before it is
  sorted. Each scaler is fitted on the whole column and then applied to every row.
\<close>

definition score_rows :: "(row \<times> rat option) list \<Rightarrow> string \<Rightarrow> scored list" where
  "score_rows merged risk_tolerance =
     (let fill = median (map snd merged);
          roi_fit = scaler_fit (map (\<lambda>(r, roi). fillna fill roi) merged);
          precio_m2_fit = scaler_fit (map (\<lambda>(r, roi). precio_por_m2 r) merged);
          tamano_fit = scaler_fit (map (\<lambda>(r, roi). metros_cuadrados r) merged);
          (w_roi, w_precio_m2, w_tamano) = risk_weights risk_tolerance
      in map (\<lambda>(r, roi).
           let s_roi = scaler_transform roi_fit (fillna fill roi);
               s_precio_m2 = one_minus (scaler_transform precio_m2_fit (precio_por_m2 r));
               s_tamano = scaler_transform tamano_fit (metros_cuadrados r)
           in row.extend r
                (scored.fields (fillna fill roi) s_roi s_precio_m2 s_tamano
                   (nan_add (nan_add (nan_mul s_roi w_roi) (nan_mul s_precio_m2 w_precio_m2))
                      (nan_mul s_tamano w_tamano)))) merged)"

text \<open>The key of \<open>sort_values('investment_score', ascending=False)\<close>: NaN last.\<close>

fun desc_key :: "rat option \<Rightarrow> bool \<times> rat" where
  "desc_key None = (True, 0)"
| "desc_key (Some v) = (False, - v)"

text \<open>
  \<open>calculate_investment_score\<close> returns \<open>None\<close> (after printing that no property is in the
  budget range) and leaves the object unchanged when the filter keeps no row; otherwise it
  stores the sorted table in \<open>self.investment_scores\<close> and returns it.
\<close>

definition calculate_investment_score ::
  "optimizer \<Rightarrow> rat \<Rightarrow> rat \<Rightarrow> string \<Rightarrow> scored list option \<times> optimizer" where
  "calculate_investment_score self budget_min budget_max risk_tolerance =
     (let venta_props = filter (in_budget budget_min budget_max) (properties_df self)
      in if venta_props = [] then (None, self)
         else
           let venta_props' =
                 sort_key (\<lambda>s. desc_key (investment_score s))
                   (score_rows (merge_roi venta_props (roi_df self)) risk_tolerance)
           in (Some venta_props', self\<lparr>investment_scores := Some venta_props'\<rparr>))"

text \<open>\<open>DataFrame.round(2)\<close>: to the nearest multiple of 1/100, halves to the even one.\<close>

definition rint :: "rat \<Rightarrow> int" where
  "rint x =
     (let f = \<lfloor>x\<rfloor>; d = x - of_int f
      in if d < 1 / 2 then f else if 1 / 2 < d then f + 1 else if even f then f else f + 1)"

definition round2 :: "rat option \<Rightarrow> rat option" where
  "round2 x = map_option (\<lambda>v. of_int (rint (v * 100)) / 100) x"

record opportunity =
  top_barrio :: "pystr option"
  top_precio :: "rat option"
  top_metros_cuadrados :: "rat option"
  top_precio_por_m2 :: "rat option"
  top_roi_anual_porcentaje :: "rat option"
  top_investment_score :: "rat option"
  top_dormitorios :: "rat option"
  top_banos :: "rat option"

definition select_round :: "scored \<Rightarrow> opportunity" where
  "select_round s =
     \<lparr> top_barrio = barrio s,
       top_precio = round2 (precio s),
       top_metros_cuadrados = round2 (metros_cuadrados s),
       top_precio_por_m2 = round2 (precio_por_m2 s),
       top_roi_anual_porcentaje = round2 (roi_col s),
       top_investment_score = round2 (investment_score s),
       top_dormitorios = round2 (dormitorios s),
       top_banos = round2 (banos s) \<rparr>"

definition get_top_opportunities :: "optimizer \<Rightarrow> nat \<Rightarrow> opportunity list option" where
  "get_top_opportunities self n =
     (case investment_scores self of
        None \<Rightarrow> None
      | Some scores \<Rightarrow> Some (map select_round (take n scores)))"

text \<open>
  \<open>Series.str.contains(location_preference, case=False, na=False)\<close>. pandas reads the
  pattern as a regular expression; the model is for patterns without regular-expression
  metacharacters, where the test is whether the pattern occurs in the name, letters
  compared without regard to case (ASCII letters here). A missing name gives \<open>False\<close>.
\<close>

definition lower_simple :: "codepoint \<Rightarrow> codepoint" where
  "lower_simple c = (if is_ascii_upper c then c + 32 else c)"

fun occurs_in :: "pystr \<Rightarrow> pystr \<Rightarrow> bool" where
  "occurs_in pat [] = (pat = [])"
| "occurs_in pat (c # cs) = (take (length pat) (c # cs) = pat \<or> occurs_in pat cs)"

definition str_contains :: "pystr option \<Rightarrow> pystr \<Rightarrow> bool" where
  "str_contains name pat =
     (case name of
        None \<Rightarrow> False
      | Some s \<Rightarrow> occurs_in (map lower_simple pat) (map lower_simple s))"

text \<open>
  The dictionary returned by \<open>get_investment_recommendation\<close>; its third entry,
  \<open>neighborhood_analysis\<close>, is a per-neighbourhood summary of \<open>self.investment_scores\<close>
  and is left out.
\<close>

record recommendation =
  top_opportunities :: "opportunity list"
  best_opportunity :: opportunity

text \<open>
  \<open>get_investment_recommendation\<close>. The location filter rebinds the local variable
  \<open>opportunities\<close>, which is not read again: \<open>get_top_opportunities(10)\<close> takes its rows
  from \<open>self.investment_scores\<close>. \<open>top_10.iloc[0]\<close> raises \<open>IndexError\<close> on an empty table
  and \<open>top_10.to_string\<close> raises \<open>AttributeError\<close> on \<open>None\<close>. The result is the exception
  raised, or the value returned (\<open>None\<close> or the dictionary), with the object's new state.
\<close>

definition get_investment_recommendation ::
  "optimizer \<Rightarrow> rat \<Rightarrow> rat \<Rightarrow> string \<Rightarrow> pystr option
     \<Rightarrow> (py_error + recommendation option) \<times> optimizer" where
  "get_investment_recommendation self budget_min budget_max risk_tolerance
       location_preference =
     (case calculate_investment_score self budget_min budget_max risk_tolerance of
        (None, self') \<Rightarrow> (Inr None, self')
      | (Some opportunities, self') \<Rightarrow>
          let opportunities' =
                (case location_preference of
                   None \<Rightarrow> opportunities
                 | Some loc \<Rightarrow>
                     if loc = [] then opportunities
                     else filter (\<lambda>s. str_contains (barrio s) loc) opportunities)
          in (case get_top_opportunities self' 10 of
                None \<Rightarrow> (Inl AttributeError, self')
              | Some [] \<Rightarrow> (Inl IndexError, self')
              | Some (best # rest) \<Rightarrow>
                  (Inr (Some \<lparr> top_opportunities = best # rest, best_opportunity = best \<rparr>),
                   self')))"

section \<open>Notions used in the statements\<close>

text \<open>
  \<open>score_ge a b\<close>: a row with score \<open>a\<close> may stand before a row with score \<open>b\<close> in a
  table sorted by descending score with NaN last.
\<close>

definition score_ge :: "rat option \<Rightarrow> rat option \<Rightarrow> bool" where
  "score_ge a b =
     (case (a, b) of
        (_, None) \<Rightarrow> True
      | (None, Some y) \<Rightarrow> False
      | (Some x, Some y) \<Rightarrow> y \<le> x)"

text \<open>Projections of a scored row and of a recommendation, to show results compactly.\<close>

definition score_columns ::
  "scored \<Rightarrow> rat option \<times> rat option \<times> rat option \<times> rat option" where
  "score_columns s = (score_roi s, score_precio_m2 s, score_tamano s, investment_score s)"

definition precio_and_score :: "scored \<Rightarrow> rat option \<times> rat option" where
  "precio_and_score s = (precio s, investment_score s)"

definition recommended_barrios ::
  "py_error + recommendation option \<Rightarrow> (pystr option list \<times> pystr option) option" where
  "recommended_barrios res =
     (case res of
        Inr (Some rec) \<Rightarrow>
          Some (map top_barrio (top_opportunities rec), top_barrio (best_opportunity rec))
      | _ \<Rightarrow> None)"

text \<open>
  A character is title-stable when a second pass of \<open>str.title()\<close> leaves its image
  alone: its title-case and lower-case forms are not empty, \<open>do_title\<close> maps each form to
  itself (the title-case form after an uncased character, the lower-case form after a
  cased one), the last character of each form is cased exactly when the character is,
  and, unless the character is white space, the forms do not begin or end with white
  space. U+03A3 is left out (see \<open>do_title\<close>).
\<close>

definition stable_char :: "unicode_tables \<Rightarrow> codepoint \<Rightarrow> bool" where
  "stable_char ucd c =
     (c \<noteq> 931
      \<and> to_title_full ucd c \<noteq> [] \<and> to_lower_full ucd c \<noteq> []
      \<and> do_title ucd False (to_title_full ucd c) = to_title_full ucd c
      \<and> do_title ucd True (to_lower_full ucd c) = to_lower_full ucd c
      \<and> is_cased ucd (last (to_title_full ucd c)) = is_cased ucd c
      \<and> is_cased ucd (last (to_lower_full ucd c)) = is_cased ucd c
      \<and> (is_space c
          \<or> (\<not> is_space (hd (to_title_full ucd c)) \<and> \<not> is_space (last (to_title_full ucd c))
              \<and> \<not> is_space (last (to_lower_full ucd c)))))"


subsection \<open>Example tables\<close>

text \<open>A row as the scraper writes it, and an optimizer whose two tables are loaded.\<close>

definition listing :: "rat \<Rightarrow> rat \<Rightarrow> pystr \<Rightarrow> string \<Rightarrow> row" where
  "listing p m b op =
     \<lparr> precio = Some p, metros_cuadrados = Some m, dormitorios = None, banos = None,
       barrio = Some b, precio_por_m2 = None, url = [], fecha_scraping = [],
       tipo_operacion = op, categoria_precio = None, categoria_tamano = None \<rparr>"

definition loaded :: "row list \<Rightarrow> (pystr \<times> rat) list \<Rightarrow> optimizer" where
  "loaded props roi = \<lparr> properties_df = props, roi_df = roi, investment_scores = None \<rparr>"

definition Pocitos :: pystr where "Pocitos = py ''Pocitos''"
definition Centro :: pystr where "Centro = py ''Centro''"

text \<open>A raw table: a sale and a rental in Pocitos, and a sale below \<open>MIN_PRICE\<close>.\<close>

definition ex_raw :: "row list" where
  "ex_raw =
     [listing 100000 50 (py '' pocitos '') ''venta'',
      listing 60000 50 Pocitos ''alquiler'',
      listing 10 50 Centro ''venta'']"

text \<open>A table with a zero sale price, which \<open>clean_data\<close> would remove.\<close>

definition ex_zero_price :: "row list" where
  "ex_zero_price = [listing 0 50 Pocitos ''venta'', listing 1200 50 Pocitos ''alquiler'']"



text \<open>One sale in Pocitos, with and without an ROI for Pocitos.\<close>

definition ex_single :: optimizer where
  "ex_single = loaded (clean_data latin1 [listing 100000 50 Pocitos ''venta'']) [(Pocitos, 72 / 5)]"

definition ex_no_roi :: optimizer where
  "ex_no_roi = loaded (clean_data latin1 [listing 100000 50 Pocitos ''venta'']) [(Centro, 10)]"

definition ex_single_scored :: scored where
  "ex_single_scored =
     row.extend (derive_columns latin1 (listing 100000 50 Pocitos ''venta''))
       (scored.fields (Some (72 / 5)) (Some 0) (Some 1) (Some 0) (Some (3 / 10)))"

text \<open>
  Two sales in Pocitos with the same score under \<open>'medium'\<close>: the dearer one has the
  higher price per square metre (score 0) and the larger area (score 1), the cheaper one
  the reverse.
\<close>

definition ex_tie :: "row list" where
  "ex_tie = clean_data latin1 [listing 200000 100 Pocitos ''venta'', listing 50000 50 Pocitos ''venta'']"

text \<open>A sale in Centro and a sale in Pocitos, both with an ROI.\<close>

definition ex_two :: optimizer where
  "ex_two =
     loaded (clean_data latin1 [listing 200000 80 Centro ''venta'', listing 100000 50 Pocitos ''venta''])
       [(Pocitos, 72 / 5), (Centro, 10)]"

definition ex_two_Pocitos :: scored where
  "ex_two_Pocitos =
     row.extend (derive_columns latin1 (listing 100000 50 Pocitos ''venta''))
       (scored.fields (Some (72 / 5)) (Some 1) (Some 1) (Some 0) (Some (7 / 10)))"

definition ex_two_Centro :: scored where
  "ex_two_Centro =
     row.extend (derive_columns latin1 (listing 200000 80 Centro ''venta''))
       (scored.fields (Some 10) (Some 0) (Some 0) (Some 1) (Some (3 / 10)))"

text \<open>The same two rows with the scores of the \<open>else\<close> branch of the weights.\<close>

definition ex_two_Pocitos_high :: scored where
  "ex_two_Pocitos_high =
     row.extend (derive_columns latin1 (listing 100000 50 Pocitos ''venta''))
       (scored.fields (Some (72 / 5)) (Some 1) (Some 1) (Some 0) (Some (4 / 5)))"

definition ex_two_Centro_high :: scored where
  "ex_two_Centro_high =
     row.extend (derive_columns latin1 (listing 200000 80 Centro ''venta''))
       (scored.fields (Some 10) (Some 0) (Some 0) (Some 1) (Some (1 / 5)))"

section \<open>Auxiliary facts\<close>

subsection \<open>Evaluation\<close>

lemmas latin1_defs = latin1_lower_def latin1_title_def latin1_cased_def
  is_ascii_upper_def is_ascii_lower_def

lemmas str_defs = py_def Pocitos_def Centro_def title_def strip_def is_space_def
  latin1_def latin1_defs

lemmas clean_defs = clean_data_def dropna_def listing_def in_valid_range_def
  MIN_PRICE_def MAX_PRICE_def MIN_M2_def MAX_M2_def derive_columns_def col_div_def
  cut_precio_def cut_tamano_def

lemmas roi_defs = calculate_roi_potential_def subset_of_def groupby_precio_mean_def mean_def
  inf_of_sign_def

lemmas scorer_defs = calculate_investment_score_def in_budget_def merge_roi_def score_rows_def
  median_def fillna_def scaler_fit_def scaler_transform_def handle_zeros_in_scale_def eps_def
  risk_weights_def nan_mul_def nan_add_def one_minus_def Let_def loaded_def

lemma scored_sel [simp]:
  "roi_col (row.extend r (scored.fields a b c d e)) = a"
  "score_roi (row.extend r (scored.fields a b c d e)) = b"
  "score_precio_m2 (row.extend r (scored.fields a b c d e)) = c"
  "score_tamano (row.extend r (scored.fields a b c d e)) = d"
  "investment_score (row.extend r (scored.fields a b c d e)) = e"
  "precio (row.extend r (scored.fields a b c d e)) = precio r"
  "metros_cuadrados (row.extend r (scored.fields a b c d e)) = metros_cuadrados r"
  "precio_por_m2 (row.extend r (scored.fields a b c d e)) = precio_por_m2 r"
  "barrio (row.extend r (scored.fields a b c d e)) = barrio r"
  "dormitorios (row.extend r (scored.fields a b c d e)) = dormitorios r"
  "banos (row.extend r (scored.fields a b c d e)) = banos r"
  by (simp_all add: row.defs scored.defs)

lemma set_non_nan: "set (non_nan xs) = {v. Some v \<in> set xs}"
  by (induction xs rule: non_nan.induct) auto

subsection \<open>Title-casing and stripping\<close>











lemma latin1_sel [simp]:
  "to_lower_full latin1 = latin1_lower"
  "to_title_full latin1 = latin1_title"
  "is_cased latin1 = latin1_cased"
  by (simp_all add: latin1_def)









lemma U0130_not_stable: "\<not> stable_char latin1 304"
  by (simp add: stable_char_def latin1_defs)

subsection \<open>Group means and the ROI rows\<close>

lemma groupby_entry:
  assumes "(b, m) \<in> set (groupby_precio_mean rows)"
  shows "m = mean (map precio (filter (\<lambda>r. barrio r = Some b) rows))"
    and "Some b \<in> barrio ` set rows"
  using assms by (auto simp: groupby_precio_mean_def set_non_nan)

text \<open>Where a row of the ROI table comes from.\<close>

lemma roi_entry_origin:
  assumes "calculate_roi_potential df = Inr rois" and "e \<in> set rois"
  shows "\<exists>pv pa.
      (roi_barrio e, pv) \<in> set (groupby_precio_mean (subset_of ''venta'' df))
    \<and> (roi_barrio e, pa) \<in> set (groupby_precio_mean (subset_of ''alquiler'' df))
    \<and> precio_venta_promedio e = pv
    \<and> precio_alquiler_mensual_promedio e = pa
    \<and> roi_anual_porcentaje e = fmul (fdiv (fmul pa (Fin 12)) pv) (Fin 100)"
proof -
  define va where "va = groupby_precio_mean (subset_of ''venta'' df)"
  define aa where "aa = groupby_precio_mean (subset_of ''alquiler'' df)"
  define entry where "entry = (\<lambda>(b, precio_venta).
              case map_of aa b of
                None \<Rightarrow> []
              | Some precio_alquiler_mensual \<Rightarrow>
                  [\<lparr> roi_barrio = b,
                     precio_venta_promedio = precio_venta,
                     precio_alquiler_mensual_promedio = precio_alquiler_mensual,
                     roi_anual_porcentaje =
                       fmul (fdiv (fmul precio_alquiler_mensual (Fin 12)) precio_venta)
                         (Fin 100) \<rparr>])"
  from assms(1)
  have "rois = sort_key (\<lambda>e. desc_key_fnum (roi_anual_porcentaje e)) (concat (map entry va))"
    by (simp add: calculate_roi_potential_def Let_def va_def aa_def entry_def
        split: if_splits)
  with assms(2) have "e \<in> set (concat (map entry va))" by simp
  then obtain b pv where bpv: "(b, pv) \<in> set va" and e: "e \<in> set (entry (b, pv))" by auto
  from e obtain pa where pa: "map_of aa b = Some pa"
    and e': "e = \<lparr> roi_barrio = b, precio_venta_promedio = pv,
                  precio_alquiler_mensual_promedio = pa,
                  roi_anual_porcentaje = fmul (fdiv (fmul pa (Fin 12)) pv) (Fin 100) \<rparr>"
    by (auto simp: entry_def split: option.splits)
  from pa have "(b, pa) \<in> set aa" by (rule map_of_SomeD)
  with bpv e' show ?thesis by (simp add: va_def aa_def)
qed

lemma non_nan_all_some:
  assumes "\<forall>x \<in> set col. \<exists>v. x = Some v \<and> (lo::rat) \<le> v"
  shows "length (non_nan col) = length col
       \<and> lo * of_nat (length col) \<le> sum_list (non_nan col)"
  using assms
proof (induction col)
  case Nil
  then show ?case by simp
next
  case (Cons x col)
  then obtain v where "x = Some v" "lo \<le> v" by auto
  with Cons show ?case by (simp add: algebra_simps)
qed

lemma mean_lower_bound:
  assumes "col \<noteq> []" and "\<forall>x \<in> set col. \<exists>v. x = Some v \<and> (lo::rat) \<le> v"
  shows "\<exists>m. mean col = Fin m \<and> lo \<le> m"
proof -
  from non_nan_all_some [OF assms(2)]
  have len: "length (non_nan col) = length col"
    and s: "lo * of_nat (length col) \<le> sum_list (non_nan col)" by simp_all
  from assms(1) len have ne: "non_nan col \<noteq> []" by auto
  from assms(1) have pos: "(0::rat) < of_nat (length col)" by simp
  from s pos have "lo \<le> sum_list (non_nan col) / of_nat (length col)"
    by (simp add: pos_le_divide_eq)
  with ne len show ?thesis by (simp add: mean_def Let_def)
qed

lemma clean_data_row:
  assumes "r \<in> set (clean_data ucd df)"
  shows "\<exists>p. precio r = Some p \<and> MIN_PRICE \<le> p"
proof -
  from assms obtain r0 where r0: "in_valid_range r0" and r: "r = derive_columns ucd r0"
    by (auto simp: clean_data_def)
  from r0 obtain p where "precio r0 = Some p" "MIN_PRICE \<le> p"
    by (auto simp: in_valid_range_def split: option.splits)
  then show ?thesis by (simp add: r derive_columns_def)
qed

lemma cleaned_group_mean:
  assumes "(b, m) \<in> set (groupby_precio_mean (subset_of op (clean_data ucd df)))"
  shows "\<exists>v. m = Fin v \<and> MIN_PRICE \<le> v"
proof -
  define g where "g = filter (\<lambda>r. barrio r = Some b) (subset_of op (clean_data ucd df))"
  from groupby_entry [OF assms] have m: "m = mean (map precio g)" and ne: "g \<noteq> []"
    by (auto simp: g_def filter_empty_conv)
  have "\<forall>x \<in> set (map precio g). \<exists>v. x = Some v \<and> MIN_PRICE \<le> v"
    using clean_data_row by (auto simp: g_def subset_of_def)
  with ne show ?thesis unfolding m by (intro mean_lower_bound) simp_all
qed

subsection \<open>The scaler and the scored table\<close>

lemma scaler_fit_alt:
  "scaler_fit col =
     (if non_nan col = [] then None
      else let data_min = Min (set (non_nan col));
               scale = 1 / handle_zeros_in_scale (Max (set (non_nan col)) - data_min)
           in Some (scale, 0 - data_min * scale))"
  by (simp add: scaler_fit_def Let_def split: list.splits)

lemma scaler_fit_cong_set:
  assumes "set col = set col'"
  shows "scaler_fit col = scaler_fit col'"
proof -
  from assms have "set (non_nan col) = set (non_nan col')" by (simp add: set_non_nan)
  moreover from this have "(non_nan col = []) = (non_nan col' = [])"
    by (metis set_empty)
  ultimately show ?thesis by (simp add: scaler_fit_alt)
qed

text \<open>A column whose cells all hold the same number is scaled to 0.\<close>

lemma scaler_constant_column:
  assumes "Some v \<in> set col" and "\<forall>x \<in> set col. x = Some v"
  shows "scaler_transform (scaler_fit col) (Some v) = Some 0"
proof -
  from assms have "set (non_nan col) = {v}" by (auto simp: set_non_nan)
  moreover from this have "non_nan col \<noteq> []" by auto
  ultimately have "scaler_fit col = Some (1, - v)"
    by (simp add: scaler_fit_alt handle_zeros_in_scale_def eps_def)
  then show ?thesis by (simp add: scaler_transform_def)
qed

text \<open>A cell that holds a number is scaled into the unit interval.\<close>

lemma scaler_unit_interval:
  assumes "Some v \<in> set col"
  shows "\<exists>x. scaler_transform (scaler_fit col) (Some v) = Some x \<and> 0 \<le> x \<and> x \<le> 1"
proof -
  define S where "S = set (non_nan col)"
  from assms have vS: "v \<in> S" by (simp add: S_def set_non_nan)
  have fin: "finite S" by (simp add: S_def)
  from vS have ne: "non_nan col \<noteq> []" by (auto simp: S_def)
  define lo where "lo = Min S"
  define hi where "hi = Max S"
  from fin vS have lo: "lo \<le> v" and hi: "v \<le> hi" by (simp_all add: lo_def hi_def)
  define d where "d = handle_zeros_in_scale (hi - lo)"
  have fit: "scaler_fit col = Some (1 / d, 0 - lo * (1 / d))"
    using ne by (simp add: scaler_fit_alt Let_def S_def lo_def hi_def d_def)
  have val: "scaler_transform (scaler_fit col) (Some v) = Some ((v - lo) / d)"
    by (simp add: fit scaler_transform_def algebra_simps diff_divide_distrib)
  have "0 < d \<and> v - lo \<le> d"
  proof (cases "hi - lo < 10 * eps")
    case True
    then have "d = 1" by (simp add: d_def handle_zeros_in_scale_def)
    moreover have "10 * eps \<le> 1" by (simp add: eps_def)
    ultimately show ?thesis using True hi by simp
  next
    case False
    then have "d = hi - lo" by (simp add: d_def handle_zeros_in_scale_def)
    moreover have "0 < 10 * eps" by (simp add: eps_def)
    ultimately show ?thesis using False hi by simp
  qed
  with lo have "0 \<le> (v - lo) / d \<and> (v - lo) / d \<le> 1" by simp
  with val show ?thesis by simp
qed

lemma score_rows_columns:
  "map roi_col (score_rows merged rt)
     = map (\<lambda>(r, roi). fillna (median (map snd merged)) roi) merged"
  "map precio_por_m2 (score_rows merged rt) = map (\<lambda>(r, roi). precio_por_m2 r) merged"
  "map metros_cuadrados (score_rows merged rt) = map (\<lambda>(r, roi). metros_cuadrados r) merged"
  by (simp_all add: score_rows_def Let_def split_beta)

lemma score_rows_row:
  assumes "s \<in> set (score_rows merged rt)"
  shows "score_roi s
           = scaler_transform (scaler_fit (map roi_col (score_rows merged rt))) (roi_col s)"
    and "score_precio_m2 s =
           one_minus (scaler_transform (scaler_fit (map precio_por_m2 (score_rows merged rt)))
             (precio_por_m2 s))"
    and "score_tamano s =
           scaler_transform (scaler_fit (map metros_cuadrados (score_rows merged rt)))
             (metros_cuadrados s)"
    and "investment_score s =
           (case risk_weights rt of (w_roi, w_precio_m2, w_tamano) \<Rightarrow>
              nan_add (nan_add (nan_mul (score_roi s) w_roi)
                (nan_mul (score_precio_m2 s) w_precio_m2)) (nan_mul (score_tamano s) w_tamano))"
  using assms unfolding score_rows_columns
  by (auto simp: score_rows_def Let_def split_beta)

lemma calculate_investment_score_Some:
  assumes "calculate_investment_score self budget_min budget_max rt = (Some rows, self')"
  shows "rows = sort_key (\<lambda>s. desc_key (investment_score s))
                  (score_rows (merge_roi (filter (in_budget budget_min budget_max)
                     (properties_df self)) (roi_df self)) rt)"
  using assms by (auto simp: calculate_investment_score_def Let_def split: if_splits)

text \<open>
  Every row of the returned table carries the scores that the scalers, fitted on the
  columns of that table, give to its own metrics, and their weighted sum.
\<close>

lemma scored_row_spec:
  assumes "calculate_investment_score self budget_min budget_max rt = (Some rows, self')"
    and "s \<in> set rows"
  shows "score_roi s = scaler_transform (scaler_fit (map roi_col rows)) (roi_col s)"
    and "score_precio_m2 s =
           one_minus (scaler_transform (scaler_fit (map precio_por_m2 rows)) (precio_por_m2 s))"
    and "score_tamano s =
           scaler_transform (scaler_fit (map metros_cuadrados rows)) (metros_cuadrados s)"
    and "investment_score s =
           (case risk_weights rt of (w_roi, w_precio_m2, w_tamano) \<Rightarrow>
              nan_add (nan_add (nan_mul (score_roi s) w_roi)
                (nan_mul (score_precio_m2 s) w_precio_m2)) (nan_mul (score_tamano s) w_tamano))"
proof -
  define T where "T = score_rows (merge_roi (filter (in_budget budget_min budget_max)
                     (properties_df self)) (roi_df self)) rt"
  from calculate_investment_score_Some [OF assms(1)]
  have rows: "rows = sort_key (\<lambda>s. desc_key (investment_score s)) T" by (simp add: T_def)
  then have set: "set rows = set T" by simp
  with assms(2) have s: "s \<in> set (score_rows (merge_roi (filter (in_budget budget_min
      budget_max) (properties_df self)) (roi_df self)) rt)" by (simp add: T_def)
  have c: "scaler_fit (map f rows) = scaler_fit (map f T)" for f :: "scored \<Rightarrow> rat option"
    by (rule scaler_fit_cong_set) (simp add: set)
  show "score_roi s = scaler_transform (scaler_fit (map roi_col rows)) (roi_col s)"
    unfolding c T_def by (rule score_rows_row(1) [OF s])
  show "score_precio_m2 s =
           one_minus (scaler_transform (scaler_fit (map precio_por_m2 rows)) (precio_por_m2 s))"
    unfolding c T_def by (rule score_rows_row(2) [OF s])
  show "score_tamano s =
           scaler_transform (scaler_fit (map metros_cuadrados rows)) (metros_cuadrados s)"
    unfolding c T_def by (rule score_rows_row(3) [OF s])
  show "investment_score s =
           (case risk_weights rt of (w_roi, w_precio_m2, w_tamano) \<Rightarrow>
              nan_add (nan_add (nan_mul (score_roi s) w_roi)
                (nan_mul (score_precio_m2 s) w_precio_m2)) (nan_mul (score_tamano s) w_tamano))"
    by (rule score_rows_row(4) [OF s])
qed

text \<open>
  What does hold of the three score columns in exact arithmetic: a score is in the unit
  interval whenever the metric it is computed from is a number. (In binary floating
  point \<open>X * scale_ + min_\<close> can exceed 1 by a rounding error; rounding is not modelled.)
\<close>

lemma scores_in_unit_interval:
  assumes "calculate_investment_score self budget_min budget_max rt = (Some rows, self')"
    and "s \<in> set rows"
  shows "roi_col s \<noteq> None \<Longrightarrow> \<exists>x. score_roi s = Some x \<and> 0 \<le> x \<and> x \<le> 1"
    and "precio_por_m2 s \<noteq> None \<Longrightarrow> \<exists>x. score_precio_m2 s = Some x \<and> 0 \<le> x \<and> x \<le> 1"
    and "metros_cuadrados s \<noteq> None \<Longrightarrow> \<exists>x. score_tamano s = Some x \<and> 0 \<le> x \<and> x \<le> 1"
proof -
  note spec = scored_row_spec [OF assms]
  have unit: "\<exists>x. scaler_transform (scaler_fit (map f rows)) (f s) = Some x \<and> 0 \<le> x \<and> x \<le> 1"
    if "f s \<noteq> None" for f :: "scored \<Rightarrow> rat option"
  proof -
    from that obtain v where v: "f s = Some v" by auto
    with assms(2) have "Some v \<in> set (map f rows)" by force
    from scaler_unit_interval [OF this] v show ?thesis by simp
  qed
  show "roi_col s \<noteq> None \<Longrightarrow> \<exists>x. score_roi s = Some x \<and> 0 \<le> x \<and> x \<le> 1"
    using unit [of roi_col] by (simp add: spec(1))
  show "metros_cuadrados s \<noteq> None \<Longrightarrow> \<exists>x. score_tamano s = Some x \<and> 0 \<le> x \<and> x \<le> 1"
    using unit [of metros_cuadrados] by (simp add: spec(3))
  assume "precio_por_m2 s \<noteq> None"
  from unit [of precio_por_m2, OF this] obtain x where
    "scaler_transform (scaler_fit (map precio_por_m2 rows)) (precio_por_m2 s) = Some x"
    "0 \<le> x" "x \<le> 1" by blast
  then show "\<exists>x. score_precio_m2 s = Some x \<and> 0 \<le> x \<and> x \<le> 1"
    by (simp add: spec(2) one_minus_def)
qed

lemma desc_key_le: "desc_key a \<le> desc_key b \<longleftrightarrow> score_ge a b"
  by (cases a; cases b) (simp_all add: score_ge_def)

text \<open>The two example queries, evaluated.\<close>

lemma ex_single_medium:
  "calculate_investment_score ex_single 50000 300000 ''medium''
     = (Some [ex_single_scored], ex_single\<lparr>investment_scores := Some [ex_single_scored]\<rparr>)"
  by (simp add: ex_single_def ex_single_scored_def scorer_defs clean_defs str_defs)

lemma ex_two_medium:
  "calculate_investment_score ex_two 50000 300000 ''medium''
     = (Some [ex_two_Pocitos, ex_two_Centro],
        ex_two\<lparr>investment_scores := Some [ex_two_Pocitos, ex_two_Centro]\<rparr>)"
  by (simp add: ex_two_def ex_two_Pocitos_def ex_two_Centro_def scorer_defs clean_defs str_defs)

lemma ex_two_unrecognised:
  "calculate_investment_score ex_two 50000 300000 ''Medium''
     = (Some [ex_two_Pocitos_high, ex_two_Centro_high],
        ex_two\<lparr>investment_scores := Some [ex_two_Pocitos_high, ex_two_Centro_high]\<rparr>)"
  by (simp add: ex_two_def ex_two_Pocitos_high_def ex_two_Centro_high_def scorer_defs
      clean_defs str_defs)

lemma ex_raw_cleaned:
  "clean_data latin1 ex_raw =
     [derive_columns latin1 (listing 100000 50 (py '' pocitos '') ''venta''),
      derive_columns latin1 (listing 60000 50 Pocitos ''alquiler'')]"
  by (simp add: ex_raw_def clean_data_def dropna_def listing_def in_valid_range_def
      MIN_PRICE_def MAX_PRICE_def MIN_M2_def MAX_M2_def)

lemma ex_raw_roi:
  "calculate_roi_potential (clean_data latin1 ex_raw) =
     Inr [\<lparr> roi_barrio = Pocitos, precio_venta_promedio = Fin 100000,
            precio_alquiler_mensual_promedio = Fin 60000, roi_anual_porcentaje = Fin 720 \<rparr>]"
  by (simp add: roi_defs ex_raw_def clean_defs str_defs)

section \<open>The claims\<close>

subsection \<open>C1: degenerate normalisation\<close>

text \<open>
  C1, as stated, fails. For a single candidate whose neighbourhood has an ROI the three
  scores are 0, 1 and 0, not 0.5 each, and \<open>investment_score\<close> is the weight of the
  price-per-area score: 0.3 under \<open>'medium'\<close> and 0.2 under \<open>'high'\<close>, so it depends on
  the weight table.
\<close>

theorem single_candidate_not_neutral:
  "map_option (map score_columns)
       (fst (calculate_investment_score ex_single 50000 300000 ''medium''))
     = Some [(Some 0, Some 1, Some 0, Some (3 / 10))]
   \<and> map_option (map score_columns)
       (fst (calculate_investment_score ex_single 50000 300000 ''high''))
     = Some [(Some 0, Some 1, Some 0, Some (1 / 5))]"
  by (simp add: ex_single_def score_columns_def scorer_defs clean_defs str_defs)

text \<open>
  C1, amended: when every row of the scored table holds the same number in a raw metric,
  \<open>MinMaxScaler\<close> maps that metric to 0 in every row, so \<open>score_roi\<close> and \<open>score_tamano\<close>
  are 0 and \<open>score_precio_m2\<close> is \<open>1 - 0 = 1\<close>. For a table of a single row with its three
  metrics present, the scores are 0, 1 and 0 and \<open>investment_score\<close> equals the
  price-per-area weight of the risk tolerance.
\<close>

theorem zero_variance_scaled_to_zero:
  assumes "calculate_investment_score self budget_min budget_max rt = (Some rows, self')"
  shows "((\<forall>s \<in> set rows. roi_col s = Some a) \<longrightarrow> (\<forall>s \<in> set rows. score_roi s = Some 0))
       \<and> ((\<forall>s \<in> set rows. precio_por_m2 s = Some b)
            \<longrightarrow> (\<forall>s \<in> set rows. score_precio_m2 s = Some 1))
       \<and> ((\<forall>s \<in> set rows. metros_cuadrados s = Some c)
            \<longrightarrow> (\<forall>s \<in> set rows. score_tamano s = Some 0))
       \<and> (rows = [s] \<and> roi_col s = Some a \<and> precio_por_m2 s = Some b
              \<and> metros_cuadrados s = Some c
            \<longrightarrow> score_roi s = Some 0 \<and> score_precio_m2 s = Some 1 \<and> score_tamano s = Some 0
                \<and> investment_score s = Some (fst (snd (risk_weights rt))))"
proof -
  note spec = scored_row_spec [OF assms]
  have const: "scaler_transform (scaler_fit (map f rows)) (f t) = Some 0"
    if "\<forall>s \<in> set rows. f s = Some v" and "t \<in> set rows"
    for f :: "scored \<Rightarrow> rat option" and v t
  proof -
    from that have "Some v \<in> set (map f rows)" by force
    moreover from that have "\<forall>x \<in> set (map f rows). x = Some v" by auto
    ultimately have "scaler_transform (scaler_fit (map f rows)) (Some v) = Some 0"
      by (rule scaler_constant_column)
    with that show ?thesis by simp
  qed
  have 1: "(\<forall>s \<in> set rows. roi_col s = Some a) \<longrightarrow> (\<forall>s \<in> set rows. score_roi s = Some 0)"
    using spec(1) const [of roi_col a] by simp
  have 2: "(\<forall>s \<in> set rows. precio_por_m2 s = Some b)
            \<longrightarrow> (\<forall>s \<in> set rows. score_precio_m2 s = Some 1)"
    using spec(2) const [of precio_por_m2 b] by (simp add: one_minus_def)
  have 3: "(\<forall>s \<in> set rows. metros_cuadrados s = Some c)
            \<longrightarrow> (\<forall>s \<in> set rows. score_tamano s = Some 0)"
    using spec(3) const [of metros_cuadrados c] by simp
  have 4: "rows = [s] \<and> roi_col s = Some a \<and> precio_por_m2 s = Some b
              \<and> metros_cuadrados s = Some c
            \<longrightarrow> score_roi s = Some 0 \<and> score_precio_m2 s = Some 1 \<and> score_tamano s = Some 0
                \<and> investment_score s = Some (fst (snd (risk_weights rt)))"
  proof
    assume h: "rows = [s] \<and> roi_col s = Some a \<and> precio_por_m2 s = Some b
              \<and> metros_cuadrados s = Some c"
    with 1 2 3
    have sc: "score_roi s = Some 0" "score_precio_m2 s = Some 1" "score_tamano s = Some 0"
      by simp_all
    from h have "s \<in> set rows" by simp
    from spec(4) [OF this] sc
    have "investment_score s = Some (fst (snd (risk_weights rt)))"
      by (simp add: nan_add_def nan_mul_def split: prod.splits)
    with sc show "score_roi s = Some 0 \<and> score_precio_m2 s = Some 1
        \<and> score_tamano s = Some 0
        \<and> investment_score s = Some (fst (snd (risk_weights rt)))" by simp
  qed
  from 1 2 3 4 show ?thesis by blast
qed

text \<open>The amended C1 at the single sale in Pocitos, under \<open>'medium'\<close>.\<close>

theorem zero_variance_scaled_to_zero_witness:
  "calculate_investment_score ex_single 50000 300000 ''medium''
     = (Some [ex_single_scored], ex_single\<lparr>investment_scores := Some [ex_single_scored]\<rparr>)
   \<and> roi_col ex_single_scored = Some (72 / 5)
   \<and> precio_por_m2 ex_single_scored = Some 2000
   \<and> metros_cuadrados ex_single_scored = Some 50
   \<and> score_roi ex_single_scored = Some 0
   \<and> score_precio_m2 ex_single_scored = Some 1
   \<and> score_tamano ex_single_scored = Some 0
   \<and> investment_score ex_single_scored = Some (3 / 10)"
proof -
  have m: "roi_col ex_single_scored = Some (72 / 5)"
    "precio_por_m2 ex_single_scored = Some 2000"
    "metros_cuadrados ex_single_scored = Some 50"
    by (simp_all add: ex_single_scored_def clean_defs)
  have w: "fst (snd (risk_weights ''medium'')) = 3 / 10"
    by (simp add: risk_weights_def)
  from zero_variance_scaled_to_zero [OF ex_single_medium,
      of "72 / 5" 2000 50 ex_single_scored] m w
  show ?thesis by (simp add: ex_single_medium)
qed

subsection \<open>C2: the location filter\<close>

text \<open>
  C2: with a location filter, every listing of the top list and the headline listing
  should be in a neighbourhood whose name contains the filter. The program does not do
  this: for the two sales of \<open>ex_two\<close> and the filter \<open>Centro\<close>, the top list holds the
  sale in Pocitos and the headline recommendation is that sale, although \<open>Pocitos\<close>
  does not contain \<open>Centro\<close>. The filtered table is computed and then not used.
\<close>

theorem location_filter_not_applied:
  "recommended_barrios
       (fst (get_investment_recommendation ex_two 50000 300000 ''medium'' (Some Centro)))
     = Some ([Some Pocitos, Some Centro], Some Pocitos)
   \<and> \<not> str_contains (Some Pocitos) Centro"
  by (simp add: get_investment_recommendation_def ex_two_medium get_top_opportunities_def
      select_round_def recommended_barrios_def ex_two_Pocitos_def ex_two_Centro_def
      derive_columns_def listing_def str_contains_def lower_simple_def str_defs)

subsection \<open>C3: the order of the scored table\<close>

text \<open>
  C3, as stated, fails. The two sales of \<open>ex_tie\<close> have the same \<open>investment_score\<close>;
  they come out in the order in which they went in, so with the dearer sale first in the
  table the dearer sale ranks first. The order of equal scores follows the input, not
  the price.
\<close>

theorem equal_scores_not_ordered_by_price:
  "map_option (map precio_and_score)
       (fst (calculate_investment_score (loaded ex_tie [(Pocitos, 72 / 5)])
          50000 300000 ''medium''))
     = Some [(Some 200000, Some (3 / 10)), (Some 50000, Some (3 / 10))]
   \<and> map_option (map precio_and_score)
       (fst (calculate_investment_score (loaded (rev ex_tie) [(Pocitos, 72 / 5)])
          50000 300000 ''medium''))
     = Some [(Some 50000, Some (3 / 10)), (Some 200000, Some (3 / 10))]"
  by (simp add: ex_tie_def precio_and_score_def scorer_defs clean_defs str_defs)

text \<open>
  C3, amended: the table returned by the Scorer is sorted by descending
  \<open>investment_score\<close>, rows without a score last, and holds exactly the scored
  candidates; rows with equal scores are not ordered by price or by neighbourhood name.
\<close>

theorem sorted_by_score_descending:
  assumes "calculate_investment_score self budget_min budget_max rt = (Some rows, self')"
  shows "sorted_wrt (\<lambda>s t. score_ge (investment_score s) (investment_score t)) rows
       \<and> mset rows =
           mset (score_rows (merge_roi (filter (in_budget budget_min budget_max)
                   (properties_df self)) (roi_df self)) rt)"
proof -
  define T where "T = score_rows (merge_roi (filter (in_budget budget_min budget_max)
                   (properties_df self)) (roi_df self)) rt"
  from calculate_investment_score_Some [OF assms]
  have rows: "rows = sort_key (\<lambda>s. desc_key (investment_score s)) T" by (simp add: T_def)
  have "sorted (map (\<lambda>s. desc_key (investment_score s)) rows)"
    unfolding rows by (rule sorted_sort_key)
  then have "sorted_wrt (\<lambda>s t. score_ge (investment_score s) (investment_score t)) rows"
    by (simp add: sorted_map desc_key_le)
  moreover have "mset rows = mset T" by (simp add: rows)
  ultimately show ?thesis by (simp add: T_def)
qed

text \<open>
  The amended C3 at \<open>ex_two\<close>: the sale in Centro is first in the table and second in
  the result.
\<close>

theorem sorted_by_score_descending_witness:
  "calculate_investment_score ex_two 50000 300000 ''medium''
     = (Some [ex_two_Pocitos, ex_two_Centro],
        ex_two\<lparr>investment_scores := Some [ex_two_Pocitos, ex_two_Centro]\<rparr>)
   \<and> map investment_score [ex_two_Pocitos, ex_two_Centro] = [Some (7 / 10), Some (3 / 10)]
   \<and> sorted_wrt (\<lambda>s t. score_ge (investment_score s) (investment_score t))
       [ex_two_Pocitos, ex_two_Centro]
   \<and> mset [ex_two_Pocitos, ex_two_Centro] =
       mset (score_rows (merge_roi (filter (in_budget 50000 300000) (properties_df ex_two))
               (roi_df ex_two)) ''medium'')"
proof -
  have "map investment_score [ex_two_Pocitos, ex_two_Centro] = [Some (7 / 10), Some (3 / 10)]"
    by (simp add: ex_two_Pocitos_def ex_two_Centro_def)
  with sorted_by_score_descending [OF ex_two_medium] ex_two_medium
  show ?thesis by blast
qed

subsection \<open>C4: a zero average sale price\<close>

text \<open>
  C4, as stated, fails. A neighbourhood whose average sale price is zero is not skipped:
  the division is carried out and the ROI table holds an infinite value.
\<close>

theorem zero_sale_price_not_skipped:
  "calculate_roi_potential ex_zero_price =
     Inr [\<lparr> roi_barrio = Pocitos, precio_venta_promedio = Fin 0,
            precio_alquiler_mensual_promedio = Fin 1200, roi_anual_porcentaje = PosInf \<rparr>]"
  by (simp add: ex_zero_price_def roi_defs listing_def str_defs)

text \<open>
  C4, amended: \<open>calculate_roi_potential\<close> has no guard against a zero average sale price.
  On a table produced by \<open>clean_data\<close> the average sale price of every neighbourhood of
  the result is a number not below \<open>MIN_PRICE\<close>, and its ROI is the finite number
  \<open>(average rent * 12 / average sale price) * 100\<close>.
\<close>

theorem roi_finite_on_cleaned_table:
  assumes "calculate_roi_potential (clean_data ucd df) = Inr rois" and "e \<in> set rois"
  shows "\<exists>pv pa. precio_venta_promedio e = Fin pv
           \<and> precio_alquiler_mensual_promedio e = Fin pa
           \<and> MIN_PRICE \<le> pv
           \<and> roi_anual_porcentaje e = Fin (pa * 12 / pv * 100)"
proof -
  from roi_entry_origin [OF assms] obtain pv pa where
    v: "(roi_barrio e, pv) \<in> set (groupby_precio_mean (subset_of ''venta'' (clean_data ucd df)))"
    and a: "(roi_barrio e, pa)
              \<in> set (groupby_precio_mean (subset_of ''alquiler'' (clean_data ucd df)))"
    and e: "precio_venta_promedio e = pv" "precio_alquiler_mensual_promedio e = pa"
      "roi_anual_porcentaje e = fmul (fdiv (fmul pa (Fin 12)) pv) (Fin 100)"
    by blast
  from cleaned_group_mean [OF v] obtain x where x: "pv = Fin x" "MIN_PRICE \<le> x" by blast
  from cleaned_group_mean [OF a] obtain y where y: "pa = Fin y" by blast
  from x have "x \<noteq> 0" by (simp add: MIN_PRICE_def)
  with x y e show ?thesis by simp
qed

text \<open>The amended C4 at \<open>ex_raw\<close>: Pocitos, with an ROI of 720.\<close>

theorem roi_finite_on_cleaned_table_witness:
  "calculate_roi_potential (clean_data latin1 ex_raw) =
     Inr [\<lparr> roi_barrio = Pocitos, precio_venta_promedio = Fin 100000,
            precio_alquiler_mensual_promedio = Fin 60000, roi_anual_porcentaje = Fin 720 \<rparr>]
   \<and> (\<exists>pv pa. Fin 100000 = Fin pv \<and> Fin 60000 = Fin pa \<and> MIN_PRICE \<le> pv
         \<and> Fin 720 = Fin (pa * 12 / pv * 100))"
  using roi_finite_on_cleaned_table [OF ex_raw_roi,
      of "\<lparr> roi_barrio = Pocitos, precio_venta_promedio = Fin 100000,
            precio_alquiler_mensual_promedio = Fin 60000, roi_anual_porcentaje = Fin 720 \<rparr>"]
    ex_raw_roi
  by simp

subsection \<open>C5: the range of the score columns\<close>

text \<open>
  C5: the three score columns should lie in the interval from 0 to 1 for every
  non-empty candidate set, also when all candidates lack a neighbourhood ROI. The program
  does not achieve this: when no candidate has an ROI, the median that should fill the
  gaps is itself NaN, and \<open>score_roi\<close> and \<open>investment_score\<close> of every row are NaN.
  Here the only candidate is in Pocitos and the ROI table knows Centro only.
  (\<open>scores_in_unit_interval\<close> above covers the rows whose metrics are numbers, in exact
  arithmetic.)
\<close>

theorem roi_score_nan_without_any_roi:
  "map_option (map score_columns)
       (fst (calculate_investment_score ex_no_roi 50000 300000 ''medium''))
     = Some [(None, Some 1, Some 0, None)]"
  by (simp add: ex_no_roi_def score_columns_def scorer_defs clean_defs str_defs)

subsection \<open>C6: a minimum budget above the maximum\<close>

text \<open>
  C6, as stated, fails. A query with \<open>budget_min > budget_max\<close> gives the very result of
  a well-formed query whose range holds no listing: the Scorer returns \<open>None\<close> and leaves
  the object as it was, and the Recommender returns \<open>None\<close>; nothing is raised.
\<close>

theorem inverted_budget_not_distinguished:
  "calculate_investment_score ex_single 300000 50000 ''medium'' = (None, ex_single)
   \<and> calculate_investment_score ex_single 1 2 ''medium'' = (None, ex_single)
   \<and> get_investment_recommendation ex_single 300000 50000 ''medium'' None
       = (Inr None, ex_single)
   \<and> get_investment_recommendation ex_single 1 2 ''medium'' None = (Inr None, ex_single)"
  by (simp add: get_investment_recommendation_def ex_single_def scorer_defs clean_defs)

text \<open>
  C6, amended: for every call with \<open>budget_min > budget_max\<close> the budget filter keeps no
  row; the Scorer returns \<open>None\<close>, the no-candidates result, without changing the object,
  and the Recommender returns \<open>None\<close>.
\<close>

theorem inverted_budget_is_no_candidates:
  assumes "budget_max < budget_min"
  shows "calculate_investment_score self budget_min budget_max rt = (None, self)
       \<and> get_investment_recommendation self budget_min budget_max rt loc = (Inr None, self)"
proof -
  have "filter (in_budget budget_min budget_max) (properties_df self) = []"
    using assms by (auto simp: filter_empty_conv in_budget_def split: option.splits)
  then have "calculate_investment_score self budget_min budget_max rt = (None, self)"
    by (simp add: calculate_investment_score_def)
  then show ?thesis by (simp add: get_investment_recommendation_def)
qed

theorem inverted_budget_is_no_candidates_witness:
  "(100000 :: rat) < 200000
   \<and> calculate_investment_score ex_two 200000 100000 ''low'' = (None, ex_two)
   \<and> get_investment_recommendation ex_two 200000 100000 ''low'' (Some Pocitos)
       = (Inr None, ex_two)"
proof -
  have h: "(100000 :: rat) < 200000" by simp
  from inverted_budget_is_no_candidates [OF h, of ex_two "''low''" "Some Pocitos"] h
  show ?thesis by simp
qed

subsection \<open>C7: neighbourhoods of the ROI table\<close>

text \<open>
  C7: every neighbourhood of the table returned by \<open>calculate_roi_potential\<close> is the
  neighbourhood of a row of the sale subset and of a row of the rent subset of the input.
\<close>

theorem roi_neighbourhood_in_both_subsets:
  assumes "calculate_roi_potential df = Inr rois" and "e \<in> set rois"
  shows "Some (roi_barrio e) \<in> barrio ` set (subset_of ''venta'' df)
       \<and> Some (roi_barrio e) \<in> barrio ` set (subset_of ''alquiler'' df)"
proof -
  from roi_entry_origin [OF assms] obtain pv pa where
    v: "(roi_barrio e, pv) \<in> set (groupby_precio_mean (subset_of ''venta'' df))"
    and a: "(roi_barrio e, pa) \<in> set (groupby_precio_mean (subset_of ''alquiler'' df))"
    by blast
  from groupby_entry(2) [OF v] groupby_entry(2) [OF a] show ?thesis by simp
qed

theorem roi_neighbourhood_in_both_subsets_witness:
  "calculate_roi_potential (clean_data latin1 ex_raw) =
     Inr [\<lparr> roi_barrio = Pocitos, precio_venta_promedio = Fin 100000,
            precio_alquiler_mensual_promedio = Fin 60000, roi_anual_porcentaje = Fin 720 \<rparr>]
   \<and> Some Pocitos \<in> barrio ` set (subset_of ''venta'' (clean_data latin1 ex_raw))
   \<and> Some Pocitos \<in> barrio ` set (subset_of ''alquiler'' (clean_data latin1 ex_raw))"
  using roi_neighbourhood_in_both_subsets [OF ex_raw_roi,
      of "\<lparr> roi_barrio = Pocitos, precio_venta_promedio = Fin 100000,
            precio_alquiler_mensual_promedio = Fin 60000, roi_anual_porcentaje = Fin 720 \<rparr>"]
    ex_raw_roi
  by simp

subsection \<open>C8: the bounds of a cleaned table\<close>

text \<open>
  C8: every row of the table produced by \<open>clean_data\<close> has a price between 50000 and
  500000 and an area between 30 and 200, the values of \<open>MIN_PRICE\<close>, \<open>MAX_PRICE\<close>,
  \<open>MIN_M2\<close> and \<open>MAX_M2\<close>.
\<close>

theorem clean_data_within_bounds:
  assumes "r \<in> set (clean_data ucd df)"
  shows "precio r \<in> Some ` {50000 .. 500000} \<and> metros_cuadrados r \<in> Some ` {30 .. 200}"
proof -
  from assms obtain r0 where r0: "in_valid_range r0" and r: "r = derive_columns ucd r0"
    by (auto simp: clean_data_def)
  from r0 obtain p m where "precio r0 = Some p" "metros_cuadrados r0 = Some m"
    "MIN_PRICE \<le> p" "p \<le> MAX_PRICE" "MIN_M2 \<le> m" "m \<le> MAX_M2"
    by (auto simp: in_valid_range_def split: option.splits)
  then show ?thesis
    by (simp add: r derive_columns_def MIN_PRICE_def MAX_PRICE_def MIN_M2_def MAX_M2_def)
qed

theorem clean_data_within_bounds_witness:
  "derive_columns latin1 (listing 100000 50 (py '' pocitos '') ''venta'') \<in> set (clean_data latin1 ex_raw)
   \<and> precio (derive_columns latin1 (listing 100000 50 (py '' pocitos '') ''venta''))
       \<in> Some ` {50000 .. 500000}
   \<and> metros_cuadrados (derive_columns latin1 (listing 100000 50 (py '' pocitos '') ''venta''))
       \<in> Some ` {30 .. 200}"
proof -
  have h: "derive_columns latin1 (listing 100000 50 (py '' pocitos '') ''venta'')
             \<in> set (clean_data latin1 ex_raw)"
    by (simp add: ex_raw_cleaned)
  from clean_data_within_bounds [OF h] h show ?thesis by simp
qed

subsection \<open>C9: cleaning twice\<close>




subsection \<open>C10: an unrecognised risk tolerance\<close>

text \<open>
  C10: for every \<open>risk_tolerance\<close> string other than \<open>'low'\<close> and \<open>'medium'\<close> the weights
  are those of \<open>'high'\<close> (roi 0.6, price per area 0.2, size 0.2) and no input is
  rejected: \<open>calculate_investment_score\<close> returns what it returns for \<open>'high'\<close>, and in
  every row of the returned table \<open>investment_score\<close> is
  \<open>score_roi * 0.6 + score_precio_m2 * 0.2 + score_tamano * 0.2\<close> (NaN when a score is
  NaN).
\<close>

theorem unrecognised_risk_tolerance_is_high:
  assumes "rt \<noteq> ''low''" and "rt \<noteq> ''medium''"
  shows "risk_weights rt = (6 / 10, 2 / 10, 2 / 10)
       \<and> calculate_investment_score self budget_min budget_max rt
           = calculate_investment_score self budget_min budget_max ''high''
       \<and> (calculate_investment_score self budget_min budget_max rt = (Some rows, self')
            \<and> s \<in> set rows
          \<longrightarrow> investment_score s
                = nan_add (nan_add (nan_mul (score_roi s) (6 / 10))
                    (nan_mul (score_precio_m2 s) (2 / 10))) (nan_mul (score_tamano s) (2 / 10))
              \<and> (score_roi s = Some a \<and> score_precio_m2 s = Some b \<and> score_tamano s = Some c
                  \<longrightarrow> investment_score s = Some (a * (6 / 10) + b * (2 / 10) + c * (2 / 10))))"
proof -
  from assms have w: "risk_weights rt = (6 / 10, 2 / 10, 2 / 10)"
    by (simp add: risk_weights_def)
  then have "risk_weights rt = risk_weights ''high''" by (simp add: risk_weights_def)
  then have "score_rows merged rt = score_rows merged ''high''" for merged
    by (simp add: score_rows_def)
  then have same: "calculate_investment_score self budget_min budget_max rt
           = calculate_investment_score self budget_min budget_max ''high''"
    by (simp add: calculate_investment_score_def Let_def)
  have pinned: "investment_score s
                = nan_add (nan_add (nan_mul (score_roi s) (6 / 10))
                    (nan_mul (score_precio_m2 s) (2 / 10))) (nan_mul (score_tamano s) (2 / 10))
              \<and> (score_roi s = Some a \<and> score_precio_m2 s = Some b \<and> score_tamano s = Some c
                  \<longrightarrow> investment_score s = Some (a * (6 / 10) + b * (2 / 10) + c * (2 / 10)))"
    if h: "calculate_investment_score self budget_min budget_max rt = (Some rows, self')"
      and s: "s \<in> set rows"
  proof -
    from scored_row_spec(4) [OF h s] w
    have eq: "investment_score s
                = nan_add (nan_add (nan_mul (score_roi s) (6 / 10))
                    (nan_mul (score_precio_m2 s) (2 / 10))) (nan_mul (score_tamano s) (2 / 10))"
      by simp
    then show ?thesis by (simp add: nan_add_def nan_mul_def)
  qed
  from w same pinned show ?thesis by blast
qed

text \<open>
  C10 at \<open>ex_two\<close> with the risk tolerance \<open>'Medium'\<close>: the scores are 0.8 and 0.2, those
  of the high-risk weights (under \<open>'medium'\<close> they are 0.7 and 0.3).
\<close>

theorem unrecognised_risk_tolerance_is_high_witness:
  "''Medium'' \<noteq> ''low'' \<and> ''Medium'' \<noteq> ''medium''
   \<and> risk_weights ''Medium'' = (6 / 10, 2 / 10, 2 / 10)
   \<and> calculate_investment_score ex_two 50000 300000 ''Medium''
       = calculate_investment_score ex_two 50000 300000 ''high''
   \<and> calculate_investment_score ex_two 50000 300000 ''Medium''
       = (Some [ex_two_Pocitos_high, ex_two_Centro_high],
          ex_two\<lparr>investment_scores := Some [ex_two_Pocitos_high, ex_two_Centro_high]\<rparr>)
   \<and> score_columns ex_two_Pocitos_high = (Some 1, Some 1, Some 0, Some (4 / 5))
   \<and> investment_score ex_two_Pocitos_high
       = Some (1 * (6 / 10) + 1 * (2 / 10) + 0 * (2 / 10))
   \<and> score_columns ex_two_Centro_high = (Some 0, Some 0, Some 1, Some (1 / 5))
   \<and> investment_score ex_two_Centro_high
       = Some (0 * (6 / 10) + 0 * (2 / 10) + 1 * (2 / 10))"
proof -
  have h: "''Medium'' \<noteq> ''low''" "''Medium'' \<noteq> ''medium''" by simp_all
  have m: "calculate_investment_score ex_two 50000 300000 ''Medium''
       = (Some [ex_two_Pocitos_high, ex_two_Centro_high],
          ex_two\<lparr>investment_scores := Some [ex_two_Pocitos_high, ex_two_Centro_high]\<rparr>)"
    by (rule ex_two_unrecognised)
  have c: "score_columns ex_two_Pocitos_high = (Some 1, Some 1, Some 0, Some (4 / 5))"
    "score_columns ex_two_Centro_high = (Some 0, Some 0, Some 1, Some (1 / 5))"
    by (simp_all add: score_columns_def ex_two_Pocitos_high_def ex_two_Centro_high_def)
  from unrecognised_risk_tolerance_is_high [OF h, of ex_two 50000 300000
      "[ex_two_Pocitos_high, ex_two_Centro_high]"
      "ex_two\<lparr>investment_scores := Some [ex_two_Pocitos_high, ex_two_Centro_high]\<rparr>"
      ex_two_Pocitos_high 1 1 0]
    unrecognised_risk_tolerance_is_high [OF h, of ex_two 50000 300000
      "[ex_two_Pocitos_high, ex_two_Centro_high]"
      "ex_two\<lparr>investment_scores := Some [ex_two_Pocitos_high, ex_two_Centro_high]\<rparr>"
      ex_two_Centro_high 0 0 1]
    h m c
  show ?thesis by (simp add: score_columns_def nan_add_def nan_mul_def)
qed

end
